theory Spec2Isabelle
  imports Complex_Main
begin

section \<open>Python values\<close>

text \<open>
  The payload of the backend is a \<^verbatim>\<open>Dict[str, Any]\<close>. Its values are the ones the
  request model of \<^verbatim>\<open>main.py\<close> admits: \<^verbatim>\<open>None\<close>, an integer or a string
  (\<^verbatim>\<open>Optional[str]\<close>, \<^verbatim>\<open>Optional[int]\<close>). Strings are lists of 8-bit characters, so
  the model covers text whose code points are below 256.
\<close>

datatype pyval = PNone | PInt int | PStr string

type_synonym payload = "string \<rightharpoonup> pyval"

definition dict_get :: "payload \<Rightarrow> string \<Rightarrow> pyval" where
  \<comment> \<open>\<^verbatim>\<open>d.get(k)\<close>: \<^verbatim>\<open>None\<close> when the key is missing.\<close>
  "dict_get d k = (case d k of None \<Rightarrow> PNone | Some v \<Rightarrow> v)"

definition dict_get_default :: "payload \<Rightarrow> string \<Rightarrow> pyval \<Rightarrow> pyval" where
  \<comment> \<open>\<^verbatim>\<open>d.get(k, default)\<close>: the default only when the key is missing.\<close>
  "dict_get_default d k dflt = (case d k of None \<Rightarrow> dflt | Some v \<Rightarrow> v)"

fun str_nat :: "nat \<Rightarrow> string" where
  "str_nat n =
     (if n < 10 then [''0123456789'' ! n]
      else str_nat (n div 10) @ [''0123456789'' ! (n mod 10)])"

declare str_nat.simps [simp del]

fun py_str :: "pyval \<Rightarrow> string" where
  \<comment> \<open>\<^verbatim>\<open>str(v)\<close>, as an f-string formats a value.\<close>
  "py_str PNone = ''None''"
| "py_str (PInt i) = (if i < 0 then ''-'' @ str_nat (nat (- i)) else str_nat (nat i))"
| "py_str (PStr s) = s"

fun type_name :: "pyval \<Rightarrow> string" where
  "type_name PNone = ''NoneType''"
| "type_name (PInt i) = ''int''"
| "type_name (PStr s) = ''str''"

definition quoted :: "string \<Rightarrow> string" where
  "quoted s = CHR 0x27 # s @ [CHR 0x27]"

definition no_attribute :: "string \<Rightarrow> string \<Rightarrow> string" where
  \<comment> \<open>The text of the AttributeError raised by \<^verbatim>\<open>obj.attr\<close> on an object of type \<open>ty\<close>.\<close>
  "no_attribute ty attr = quoted ty @ '' object has no attribute '' @ quoted attr"

definition not_subscriptable :: "string \<Rightarrow> string" where
  \<comment> \<open>The text of the TypeError raised by \<^verbatim>\<open>obj[:n]\<close> on an object of type \<open>ty\<close>.\<close>
  "not_subscriptable ty = quoted ty @ '' object is not subscriptable''"

definition isspace :: "char \<Rightarrow> bool" where
  \<comment> \<open>\<^verbatim>\<open>str.isspace\<close> on the code points below 256.\<close>
  "isspace c =
     (let n = (of_char c :: nat)
      in (9 \<le> n \<and> n \<le> 13) \<or> (28 \<le> n \<and> n \<le> 32) \<or> n = 133 \<or> n = 160)"

fun split_from :: "string \<Rightarrow> string \<Rightarrow> string list" where
  \<comment> \<open>The scan of \<^verbatim>\<open>str.split()\<close>: \<open>w\<close> is the word read so far.\<close>
  "split_from w [] = (if w = [] then [] else [w])"
| "split_from w (c # cs) =
     (if isspace c then (if w = [] then split_from [] cs else w # split_from [] cs)
      else split_from (w @ [c]) cs)"

definition str_split :: "string \<Rightarrow> string list" where
  \<comment> \<open>\<^verbatim>\<open>s.split()\<close>: the maximal runs of characters that are not whitespace.\<close>
  "str_split s = split_from [] s"

text \<open>
  What \<^verbatim>\<open>json.loads\<close> returns. A JSON object is its list of items; \<^verbatim>\<open>.get\<close> on it is
  \<^const>\<open>map_of\<close>.
\<close>

datatype jval =
    JNull
  | JBool bool
  | JInt int
  | JFloat real
  | JStr string
  | JArr "jval list"
  | JObj "(string \<times> jval) list"

fun jtype_name :: "jval \<Rightarrow> string" where
  "jtype_name JNull = ''NoneType''"
| "jtype_name (JBool b) = ''bool''"
| "jtype_name (JInt i) = ''int''"
| "jtype_name (JFloat x) = ''float''"
| "jtype_name (JStr s) = ''str''"
| "jtype_name (JArr xs) = ''list''"
| "jtype_name (JObj m) = ''dict''"

section \<open>The surroundings of one call\<close>

text \<open>
  What a call reads from outside the repository, taken as parameters:
  \<^item> \<open>utcnow\<close>: the reading of \<^verbatim>\<open>datetime.utcnow()\<close>, a count of microseconds; one call
    of a tool or of the agent sees one reading;
  \<^item> \<open>uuid4\<close>: the identifier \<^verbatim>\<open>str(uuid.uuid4())\<close> yields;
  \<^item> \<open>commit_error\<close>: \<open>Some e\<close> when the storage engine raises on \<^verbatim>\<open>db.commit()\<close>,
    with \<^verbatim>\<open>str(e) = e\<close>; queries are taken to succeed;
  \<^item> \<open>fromisoformat\<close>: \<^verbatim>\<open>datetime.fromisoformat\<close>, \<open>Inl e\<close> for the ValueError it raises;
  \<^item> \<open>GROQ_AVAILABLE\<close>, \<open>llm_invoke\<close>: the module flag of \<^verbatim>\<open>agent.py\<close> and the call
    \<^verbatim>\<open>llm.invoke(prompt).content\<close>, \<open>Inl e\<close> for an exception;
  \<^item> \<open>json_dumps\<close>, \<open>json_loads\<close>: the two functions of the \<^verbatim>\<open>json\<close> module, \<open>None\<close>
    for a JSONDecodeError.
\<close>

type_synonym datetime = nat

record world =
  utcnow :: datetime
  uuid4 :: string
  commit_error :: "string option"
  fromisoformat :: "string \<Rightarrow> string + datetime"
  GROQ_AVAILABLE :: bool
  llm_invoke :: "string \<Rightarrow> string + string"
  json_dumps :: "payload \<Rightarrow> string"
  json_loads :: "string \<Rightarrow> jval option"

text \<open>
  Standard output is the list of the lines printed, one entry for each \<^verbatim>\<open>print\<close>;
  the pictograph and the blank line that open some of them are left out.
\<close>

type_synonym stdout = "string list"

section \<open>database.py\<close>

text \<open>
  A row of the table \<^verbatim>\<open>patient_interactions\<close>. The nullable text and integer columns
  hold the Python value that was assigned. The table is the list of its rows in the
  order of insertion.
\<close>

record PatientInteraction =
  id_col :: string
  patient_id :: pyval
  interaction_type :: string
  interaction_date :: datetime
  duration_minutes :: pyval
  symptoms :: pyval
  diagnosis :: pyval
  prescription :: pyval
  follow_up_date :: "datetime option"
  chat_notes :: pyval
  is_compliant :: bool
  created_at :: datetime
  updated_at :: datetime

type_synonym store = "PatientInteraction list"

definition new_PatientInteraction :: "world \<Rightarrow> PatientInteraction" where
  \<comment> \<open>\<^verbatim>\<open>PatientInteraction()\<close> with the column defaults the INSERT fills in.\<close>
  "new_PatientInteraction w =
     \<lparr> id_col = uuid4 w,
       patient_id = PNone,
       interaction_type = ''consultation'',
       interaction_date = utcnow w,
       duration_minutes = PNone,
       symptoms = PNone,
       diagnosis = PNone,
       prescription = PNone,
       follow_up_date = None,
       chat_notes = PNone,
       is_compliant = False,
       created_at = utcnow w,
       updated_at = utcnow w \<rparr>"

definition order_by_created_at_desc :: "store \<Rightarrow> (nat \<times> PatientInteraction) list" where
  \<comment> \<open>\<^verbatim>\<open>query.order_by(created_at.desc())\<close>: each row with its position in the table;
     rows created at the same instant keep the order of insertion.\<close>
  "order_by_created_at_desc rows =
     sort_key (\<lambda>(i, r). - int (created_at r)) (enumerate 0 rows)"

definition filter_by_id :: "string \<Rightarrow> store \<Rightarrow> (nat \<times> PatientInteraction) list" where
  \<comment> \<open>\<^verbatim>\<open>query.filter(PatientInteraction.id == interaction_id)\<close>.\<close>
  "filter_by_id interaction_id rows =
     filter (\<lambda>(i, r). id_col r = interaction_id) (enumerate 0 rows)"

definition first :: "'a list \<Rightarrow> 'a option" where
  \<comment> \<open>\<^verbatim>\<open>query.first()\<close>.\<close>
  "first xs = (case xs of [] \<Rightarrow> None | x # _ \<Rightarrow> Some x)"

definition flush :: "world \<Rightarrow> PatientInteraction \<Rightarrow> PatientInteraction \<Rightarrow> PatientInteraction" where
  \<comment> \<open>The UPDATE of a commit: a row whose columns changed gets \<^verbatim>\<open>onupdate=datetime.utcnow\<close>
     on \<^verbatim>\<open>updated_at\<close>; a row with no change is not written.\<close>
  "flush w old new = (if new = old then old else new\<lparr>updated_at := utcnow w\<rparr>)"

section \<open>tools.py\<close>

text \<open>
  The dictionaries the tools return, by shape:
  \<^item> \<open>Log_ok i d\<close> is \<^verbatim>\<open>{"success": True, "interaction_id": i, "data": d}\<close>, where the
    row stands for its \<^verbatim>\<open>to_dict()\<close>;
  \<^item> \<open>Edit_ok d\<close> is \<^verbatim>\<open>{"success": True, "updated": d}\<close>;
  \<^item> \<open>Ok\<close> is \<^verbatim>\<open>{"success": True}\<close>;
  \<^item> \<open>Fail_message m\<close> is \<^verbatim>\<open>{"success": False, "message": m}\<close>;
  \<^item> \<open>Fail_error e\<close> is \<^verbatim>\<open>{"success": False, "error": e}\<close>.
\<close>

datatype tool_result =
    Log_ok string PatientInteraction
  | Edit_ok PatientInteraction
  | Ok
  | Fail_message string
  | Fail_error string

fun success :: "tool_result \<Rightarrow> bool" where
  "success (Log_ok i d) = True"
| "success (Edit_ok d) = True"
| "success Ok = True"
| "success (Fail_message m) = False"
| "success (Fail_error e) = False"

fun get_error :: "tool_result \<Rightarrow> string option" where
  "get_error (Fail_error e) = Some e"
| "get_error r = None"

fun get_message :: "tool_result \<Rightarrow> string option" where
  "get_message (Fail_message m) = Some m"
| "get_message r = None"

definition log_interaction_tool ::
  "world \<Rightarrow> store \<Rightarrow> payload \<Rightarrow> tool_result \<times> store \<times> stdout" where
  "log_interaction_tool w db interaction_data =
     (let mode = dict_get_default interaction_data ''mode'' (PStr ''form'');
          new_interaction =
            (if mode = PStr ''chat'' then
               (new_PatientInteraction w)
                 \<lparr> chat_notes := dict_get_default interaction_data ''notes'' (PStr ''''),
                   interaction_type := ''consultation'',
                   duration_minutes := PInt 30 \<rparr>
             else
               (new_PatientInteraction w)
                 \<lparr> patient_id := dict_get interaction_data ''patient_id'',
                   symptoms := dict_get interaction_data ''symptoms'',
                   diagnosis := dict_get interaction_data ''diagnosis'',
                   prescription := dict_get interaction_data ''prescription'',
                   duration_minutes :=
                     dict_get_default interaction_data ''duration'' (PInt 20) \<rparr>)
      in case commit_error w of
           None \<Rightarrow>
             (Log_ok (id_col new_interaction) new_interaction,
              db @ [new_interaction],
              [''LOG INTERACTION TOOL'', ''Interaction Saved: '' @ id_col new_interaction])
         | Some e \<Rightarrow>
             (Fail_error e, db, [''LOG INTERACTION TOOL'', ''DB Error: '' @ e]))"

definition edit_interaction_tool ::
  "world \<Rightarrow> store \<Rightarrow> payload \<Rightarrow> tool_result \<times> store \<times> stdout" where
  "edit_interaction_tool w db updates =
     (case first (order_by_created_at_desc db) of
        None \<Rightarrow> (Fail_message ''No interaction found'', db, [''EDIT INTERACTION TOOL''])
      | Some (i, last0) \<Rightarrow>
          (let last1 = (case updates ''diagnosis'' of
                          None \<Rightarrow> last0
                        | Some v \<Rightarrow> last0\<lparr>diagnosis := v\<rparr>);
               last2 = (case updates ''prescription'' of
                          None \<Rightarrow> last1
                        | Some v \<Rightarrow> last1\<lparr>prescription := v\<rparr>);
               last3 = last2\<lparr>updated_at := utcnow w\<rparr>
           in case commit_error w of
                None \<Rightarrow> (Edit_ok last3, db[i := last3], [''EDIT INTERACTION TOOL''])
              | Some e \<Rightarrow> (Fail_error e, db, [''EDIT INTERACTION TOOL''])))"

definition followup_tool ::
  "world \<Rightarrow> store \<Rightarrow> string \<Rightarrow> string \<Rightarrow> tool_result \<times> store \<times> stdout" where
  "followup_tool w db interaction_id followup_date =
     (case first (filter_by_id interaction_id db) of
        None \<Rightarrow> (Fail_message ''Not found'', db, [''FOLLOWUP TOOL''])
      | Some (i, interaction) \<Rightarrow>
          (case fromisoformat w followup_date of
             Inl e \<Rightarrow> (Fail_error e, db, [''FOLLOWUP TOOL''])
           | Inr d \<Rightarrow>
               (case commit_error w of
                  None \<Rightarrow>
                    (Ok,
                     db[i := flush w interaction (interaction\<lparr>follow_up_date := Some d\<rparr>)],
                     [''FOLLOWUP TOOL''])
                | Some e \<Rightarrow> (Fail_error e, db, [''FOLLOWUP TOOL'']))))"

definition compliance_tool ::
  "world \<Rightarrow> store \<Rightarrow> string \<Rightarrow> bool \<Rightarrow> tool_result \<times> store \<times> stdout" where
  \<comment> \<open>There is no test of the query's result: on \<^verbatim>\<open>None\<close> the assignment raises the
     AttributeError, which the handler turns into the result.\<close>
  "compliance_tool w db interaction_id is_compliant' =
     (case first (filter_by_id interaction_id db) of
        None \<Rightarrow>
          (Fail_error (no_attribute ''NoneType'' ''is_compliant''), db, [''COMPLIANCE TOOL''])
      | Some (i, interaction) \<Rightarrow>
          (case commit_error w of
             None \<Rightarrow>
               (Ok,
                db[i := flush w interaction (interaction\<lparr>is_compliant := is_compliant'\<rparr>)],
                [''COMPLIANCE TOOL''])
           | Some e \<Rightarrow> (Fail_error e, db, [''COMPLIANCE TOOL''])))"

section \<open>agent.py\<close>

text \<open>
  The insight bundle \<^verbatim>\<open>generate_ai_summary\<close> returns. Its first three entries may come
  from the external model's JSON, so they are JSON values; \<open>next_steps\<close> is present in
  the mock bundles only.
\<close>

record insight_bundle =
  summary :: jval
  insights :: jval
  confidence_score :: jval
  next_steps :: "string list option"
  ai_model :: string
  generated_at :: datetime
  is_real_ai :: bool

definition prompt :: "string \<Rightarrow> string" where
  "prompt text =
     [CHR 0x0A]
     @ ''You are a healthcare CRM AI assistant. Analyze this doctor interaction:''
     @ [CHR 0x0A, CHR 0x0A]
     @ take 2000 text @ ''  # Limit text length''
     @ [CHR 0x0A, CHR 0x0A]
     @ ''Provide a brief summary and 2-3 actionable insights.''
     @ [CHR 0x0A]
     @ ''Format as JSON with keys: summary, insights (list), confidence_score.''
     @ [CHR 0x0A]"

definition json_bundle :: "world \<Rightarrow> (string \<times> jval) list \<Rightarrow> insight_bundle" where
  \<comment> \<open>The bundle built from the JSON object the model returned.\<close>
  "json_bundle w ai_response =
     \<lparr> summary = (case map_of ai_response ''summary'' of
                    None \<Rightarrow> JStr ''AI analysis completed'' | Some v \<Rightarrow> v),
       insights = (case map_of ai_response ''insights'' of
                     None \<Rightarrow> JArr [JStr ''No specific insights generated''] | Some v \<Rightarrow> v),
       confidence_score = (case map_of ai_response ''confidence_score'' of
                             None \<Rightarrow> JFloat 0.85 | Some v \<Rightarrow> v),
       next_steps = None,
       ai_model = ''llama3-8b-8192'',
       generated_at = utcnow w,
       is_real_ai = True \<rparr>"

definition raw_bundle :: "world \<Rightarrow> string \<Rightarrow> insight_bundle" where
  \<comment> \<open>The bundle built when the model's answer is not JSON.\<close>
  "raw_bundle w content =
     \<lparr> summary = JStr (take 200 content),
       insights = JArr [JStr ''AI generated insights from clinical notes'',
                        JStr ''Recommend reviewing diagnosis accuracy'',
                        JStr ''Schedule appropriate follow-up''],
       confidence_score = JFloat 0.88,
       next_steps = None,
       ai_model = ''llama3-8b-8192'',
       generated_at = utcnow w,
       is_real_ai = True \<rparr>"

definition groq_response :: "world \<Rightarrow> payload \<Rightarrow> string + insight_bundle" where
  \<comment> \<open>The body of \<^verbatim>\<open>if GROQ_AVAILABLE: try: ...\<close>; \<open>Inl e\<close> is an exception the
     outer handler catches, which falls through to the mock response.\<close>
  "groq_response w input_data =
     (let text = (if dict_get input_data ''mode'' = PStr ''chat''
                  then dict_get_default input_data ''notes'' (PStr '''')
                  else PStr (json_dumps w input_data))
      in case text of
           PStr s \<Rightarrow>
             (case llm_invoke w (prompt s) of
                Inl e \<Rightarrow> Inl e
              | Inr content \<Rightarrow>
                  (case json_loads w content of
                     None \<Rightarrow> Inr (raw_bundle w content)
                   | Some (JObj ai_response) \<Rightarrow> Inr (json_bundle w ai_response)
                   | Some j \<Rightarrow> Inl (no_attribute (jtype_name j) ''get'')))
         | v \<Rightarrow> Inl (not_subscriptable (type_name v)))"

definition mock_response :: "world \<Rightarrow> payload \<Rightarrow> string + insight_bundle" where
  \<comment> \<open>The mock AI response (fallback); \<open>Inl e\<close> is the AttributeError of
     \<^verbatim>\<open>notes.split()\<close>, which leaves \<^verbatim>\<open>generate_ai_summary\<close>.\<close>
  "mock_response w input_data =
     (let mode = dict_get_default input_data ''mode'' (PStr ''form'')
      in if mode = PStr ''chat'' then
           (case dict_get_default input_data ''notes'' (PStr '''') of
              PStr notes \<Rightarrow>
                (let word_count = length (str_split notes)
                 in Inr \<lparr> summary = JStr (''Analyzed '' @ str_nat word_count
                             @ '' words of clinical notes. Patient presents with common symptoms requiring follow-up.''),
                          insights = JArr [JStr ''Suggested follow-up in 1-2 weeks'',
                                           JStr ''Monitor for symptom progression'',
                                           JStr ''Check for medication interactions''],
                          confidence_score = JFloat 0.92,
                          next_steps = Some [''Schedule follow-up appointment'',
                                             ''Order basic lab tests'',
                                             ''Update patient medication list''],
                          ai_model = ''Mock AI (Groq not available)'',
                          generated_at = utcnow w,
                          is_real_ai = False \<rparr>)
            | v \<Rightarrow> Inl (no_attribute (type_name v) ''split''))
         else
           (let patient_id' = dict_get_default input_data ''patient_id'' (PStr ''Unknown'')
            in Inr \<lparr> summary = JStr (''Structured consultation for patient ''
                        @ py_str patient_id' @ '' recorded successfully.''),
                     insights = JArr [JStr ''Data completeness: 95%'',
                                      JStr ''No immediate red flags detected'',
                                      JStr ''Standard treatment protocol followed''],
                     confidence_score = JFloat 0.94,
                     next_steps = Some [''Review and sign documentation'',
                                        ''Update electronic health records'',
                                        ''Schedule next appointment''],
                     ai_model = ''Mock AI (Groq not available)'',
                     generated_at = utcnow w,
                     is_real_ai = False \<rparr>))"

definition generate_ai_summary ::
  "world \<Rightarrow> payload \<Rightarrow> tool_result \<Rightarrow> (string + insight_bundle) \<times> stdout" where
  "generate_ai_summary w input_data tool_result =
     (if GROQ_AVAILABLE w then
        (case groq_response w input_data of
           Inr bundle \<Rightarrow> (Inr bundle, [''Generating AI insights...''])
         | Inl e \<Rightarrow>
             (mock_response w input_data,
              [''Generating AI insights...'',
               ''Groq API error, falling back to mock: '' @ e]))
      else (mock_response w input_data, [''Generating AI insights...'']))"

text \<open>
  The dictionaries \<^verbatim>\<open>process_interaction\<close> returns, by shape:
  \<^item> \<open>Response t r a p\<close> is \<^verbatim>\<open>{"success": True, "tool_used": t, "tool_result": r,
    "ai_insights": a, "processed_at": p}\<close>;
  \<^item> \<open>Tool_failed m r\<close> is \<^verbatim>\<open>{"success": False, "message": m, "tool_result": r}\<close>;
  \<^item> \<open>Agent_error e\<close> is \<^verbatim>\<open>{"success": False, "error": e, "message": "Internal server
    error"}\<close>.
  The registry \<^verbatim>\<open>TOOLS\<close> binds \<^verbatim>\<open>"log_interaction"\<close> to \<^verbatim>\<open>log_interaction_tool\<close>, so the
  answer \<^verbatim>\<open>"Tool not found"\<close> is never given.
\<close>

datatype envelope =
    Response string tool_result insight_bundle datetime
  | Tool_failed string tool_result
  | Agent_error string

fun envelope_success :: "envelope \<Rightarrow> bool" where
  "envelope_success (Response t r a p) = True"
| "envelope_success (Tool_failed m r) = False"
| "envelope_success (Agent_error e) = False"

fun envelope_message :: "envelope \<Rightarrow> string option" where
  "envelope_message (Response t r a p) = None"
| "envelope_message (Tool_failed m r) = Some m"
| "envelope_message (Agent_error e) = Some ''Internal server error''"

fun envelope_error :: "envelope \<Rightarrow> string option" where
  "envelope_error (Agent_error e) = Some e"
| "envelope_error r = None"

definition process_interaction ::
  "world \<Rightarrow> store \<Rightarrow> payload \<Rightarrow> envelope \<times> store \<times> stdout" where
  "process_interaction w db input_data =
     (let started = [''Processing interaction: ''
                       @ py_str (dict_get_default input_data ''mode'' (PStr ''form''))
                       @ '' mode''];
          tool_name = ''log_interaction'';
          (tool_result, db', printed) = log_interaction_tool w db input_data
      in if \<not> success tool_result then
           (Tool_failed
              (case get_error tool_result of
                 None \<Rightarrow> ''Tool execution failed'' | Some e \<Rightarrow> e)
              tool_result,
            db', started @ printed)
         else
           (case generate_ai_summary w input_data tool_result of
              (Inr ai_insights, said) \<Rightarrow>
                (Response tool_name tool_result ai_insights (utcnow w),
                 db',
                 started @ printed @ said @ [''Successfully processed interaction''])
            | (Inl e, said) \<Rightarrow>
                (Agent_error e, db', started @ printed @ said @ [''Agent Error: '' @ e])))"

section \<open>main.py\<close>

record InteractionRequest =
  mode_req :: string
  notes_req :: "string option"
  patient_id_req :: "string option"
  interaction_type_req :: "string option"
  date_req :: "string option"
  duration_req :: "int option"
  symptoms_req :: "string option"
  diagnosis_req :: "string option"
  prescription_req :: "string option"
  followUpDate_req :: "string option"

fun optional_str :: "string option \<Rightarrow> pyval" where
  "optional_str None = PNone"
| "optional_str (Some s) = PStr s"

fun optional_int :: "int option \<Rightarrow> pyval" where
  "optional_int None = PNone"
| "optional_int (Some i) = PInt i"

definition request_dict :: "InteractionRequest \<Rightarrow> payload" where
  \<comment> \<open>\<^verbatim>\<open>request.dict()\<close>: every field of the model is a key, an omitted one bound to
     \<^verbatim>\<open>None\<close>.\<close>
  "request_dict request =
     map_of
       [ (''mode'', PStr (mode_req request)),
         (''notes'', optional_str (notes_req request)),
         (''patient_id'', optional_str (patient_id_req request)),
         (''interaction_type'', optional_str (interaction_type_req request)),
         (''date'', optional_str (date_req request)),
         (''duration'', optional_int (duration_req request)),
         (''symptoms'', optional_str (symptoms_req request)),
         (''diagnosis'', optional_str (diagnosis_req request)),
         (''prescription'', optional_str (prescription_req request)),
         (''followUpDate'', optional_str (followUpDate_req request)) ]"

datatype http_result = Returned envelope | HTTPException nat string

definition log_interaction ::
  "world \<Rightarrow> store \<Rightarrow> InteractionRequest \<Rightarrow> http_result \<times> store \<times> stdout" where
  \<comment> \<open>The handler of \<^verbatim>\<open>POST /log-interaction\<close> with the basic validation.\<close>
  "log_interaction w db request =
     (let received = [''Received interaction request: '' @ mode_req request @ '' mode''];
          request_data = request_dict request
      in if mode_req request = ''chat''
            \<and> (notes_req request = None \<or> notes_req request = Some '''') then
           (HTTPException 400 ''Chat notes are required for chat mode'', db, received)
         else
           (let (result, db', printed) = process_interaction w db request_data;
                sent = received @ [''Sending to AI agent...''] @ printed
            in if \<not> envelope_success result then
                 (let error_msg =
                        (case envelope_message result of
                           Some m \<Rightarrow>
                             (if m \<noteq> '''' then m
                              else (case envelope_error result of
                                      Some e \<Rightarrow> (if e \<noteq> '''' then e else ''Processing failed'')
                                    | None \<Rightarrow> ''Processing failed''))
                         | None \<Rightarrow>
                             (case envelope_error result of
                                Some e \<Rightarrow> (if e \<noteq> '''' then e else ''Processing failed'')
                              | None \<Rightarrow> ''Processing failed''))
                  in (HTTPException 500 error_msg, db', sent @ [''Agent failed: '' @ error_msg]))
               else (Returned result, db', sent @ [''Agent processing successful''])))"

section \<open>Reading an envelope\<close>

fun tool_used :: "envelope \<Rightarrow> string option" where
  \<comment> \<open>\<^verbatim>\<open>response.get("tool_used")\<close>, and likewise below.\<close>
  "tool_used (Response t r a p) = Some t"
| "tool_used e = None"

fun tool_result_of :: "envelope \<Rightarrow> tool_result option" where
  "tool_result_of (Response t r a p) = Some r"
| "tool_result_of (Tool_failed m r) = Some r"
| "tool_result_of (Agent_error e) = None"

fun ai_insights_of :: "envelope \<Rightarrow> insight_bundle option" where
  "ai_insights_of (Response t r a p) = Some a"
| "ai_insights_of e = None"

fun processed_at :: "envelope \<Rightarrow> datetime option" where
  "processed_at (Response t r a p) = Some p"
| "processed_at e = None"

definition len_insights :: "insight_bundle \<Rightarrow> nat option" where
  \<comment> \<open>\<^verbatim>\<open>len(bundle["insights"])\<close> when the entry is a list.\<close>
  "len_insights b = (case insights b of JArr xs \<Rightarrow> Some (length xs) | _ \<Rightarrow> None)"

section \<open>Sample surroundings and inputs\<close>

definition mock_world :: world where
  \<comment> \<open>No API key: the mock responses are in use; the store works.\<close>
  "mock_world =
     \<lparr> utcnow = 1000,
       uuid4 = ''id-3'',
       commit_error = None,
       fromisoformat =
         (\<lambda>s. if s = ''2024-01-27'' then Inr 2000
              else Inl (''Invalid isoformat string: '' @ quoted s)),
       GROQ_AVAILABLE = False,
       llm_invoke = (\<lambda>p. Inl ''no client''),
       json_dumps = (\<lambda>d. ''{}''),
       json_loads = (\<lambda>s. None) \<rparr>"

definition groq_world :: world where
  \<comment> \<open>The model is configured and answers with the empty JSON object.\<close>
  "groq_world =
     mock_world
       \<lparr> GROQ_AVAILABLE := True,
         llm_invoke := (\<lambda>p. Inr ''{}''),
         json_loads := (\<lambda>s. if s = ''{}'' then Some (JObj []) else None) \<rparr>"

definition groq_down_world :: world where
  \<comment> \<open>The model is configured and its call raises.\<close>
  "groq_down_world =
     mock_world\<lparr>GROQ_AVAILABLE := True, llm_invoke := (\<lambda>p. Inl ''Connection error.'')\<rparr>"

definition groq_text_world :: world where
  \<comment> \<open>The model is configured and answers with text that is not JSON.\<close>
  "groq_text_world =
     mock_world\<lparr>GROQ_AVAILABLE := True, llm_invoke := (\<lambda>p. Inr ''Likely a viral fever.'')\<rparr>"

definition locked_world :: world where
  \<comment> \<open>The storage engine refuses the commit.\<close>
  "locked_world = mock_world\<lparr>commit_error := Some ''database is locked''\<rparr>"

definition seeded :: store where
  \<comment> \<open>The two rows \<^verbatim>\<open>init_db\<close> seeds an empty table with, at sample times and with
     sample identifiers.\<close>
  "seeded =
     [ \<lparr> id_col = ''id-1'', patient_id = PStr ''PAT001'',
         interaction_type = ''consultation'', interaction_date = 100,
         duration_minutes = PInt 30, symptoms = PStr ''Fever, cough, headache'',
         diagnosis = PStr ''Viral infection'',
         prescription = PStr ''Rest, fluids, paracetamol'',
         follow_up_date = Some 900, chat_notes = PNone, is_compliant = True,
         created_at = 300, updated_at = 300 \<rparr>,
       \<lparr> id_col = ''id-2'', patient_id = PStr ''PAT002'',
         interaction_type = ''follow-up'', interaction_date = 200,
         duration_minutes = PInt 20, symptoms = PStr ''Improving, mild cough persists'',
         diagnosis = PStr ''Recovering viral infection'',
         prescription = PStr ''Continue rest'',
         follow_up_date = None, chat_notes = PNone, is_compliant = True,
         created_at = 301, updated_at = 301 \<rparr> ]"

definition chat_fever :: payload where
  "chat_fever = [''mode'' \<mapsto> PStr ''chat'', ''notes'' \<mapsto> PStr ''fever'']"

definition chat_null_notes :: payload where
  "chat_null_notes = [''mode'' \<mapsto> PStr ''chat'', ''notes'' \<mapsto> PNone]"

definition chat_with_duration :: payload where
  "chat_with_duration =
     [''mode'' \<mapsto> PStr ''chat'', ''notes'' \<mapsto> PStr ''a b c'', ''duration'' \<mapsto> PInt 45]"

definition form_pat123 :: payload where
  "form_pat123 =
     [''mode'' \<mapsto> PStr ''form'', ''patient_id'' \<mapsto> PStr ''PAT123'',
      ''symptoms'' \<mapsto> PStr ''Fever'', ''diagnosis'' \<mapsto> PStr ''Flu'',
      ''prescription'' \<mapsto> PStr ''Rest'']"

definition form_request :: InteractionRequest where
  \<comment> \<open>A form submission that leaves the duration out.\<close>
  "form_request =
     \<lparr> mode_req = ''form'', notes_req = None, patient_id_req = Some ''PAT123'',
       interaction_type_req = Some ''consultation'', date_req = None,
       duration_req = None, symptoms_req = Some ''Fever'', diagnosis_req = Some ''Flu'',
       prescription_req = Some ''Rest'', followUpDate_req = None \<rparr>"

section \<open>Queries on the table\<close>

lemma first_order_by_created_at_desc:
  assumes "db \<noteq> []"
  shows "\<exists>i. i < length db \<and> first (order_by_created_at_desc db) = Some (i, db ! i)
           \<and> (\<forall>r \<in> set db. created_at r \<le> created_at (db ! i))"
proof -
  define f where "f = (\<lambda>(i :: nat, r :: PatientInteraction). - int (created_at r))"
  define ys where "ys = sort_key f (enumerate 0 db)"
  have set_ys: "set ys = set (enumerate 0 db)"
    by (simp add: ys_def)
  have "length ys = length db"
    by (simp add: ys_def)
  with assms obtain y ys' where ys: "ys = y # ys'"
    by (cases ys) auto
  obtain i r where y: "y = (i, r)"
    by (cases y)
  have "(i, r) \<in> set (enumerate 0 db)"
    using set_ys ys y by auto
  then have i: "i < length db" and r: "r = db ! i"
    by (auto simp: in_set_enumerate_eq)
  have sorted: "sorted (map f ys)"
    by (simp add: ys_def)
  have max: "created_at r' \<le> created_at (db ! i)" if "r' \<in> set db" for r'
  proof -
    from that obtain j where j: "j < length db" "r' = db ! j"
      by (auto simp: in_set_conv_nth)
    then have "(j, r') \<in> set ys"
      by (simp add: set_ys in_set_enumerate_eq)
    then have "f y \<le> f (j, r')"
      using sorted ys by auto
    then show ?thesis
      by (simp add: f_def y r)
  qed
  have "first (order_by_created_at_desc db) = Some (i, db ! i)"
    using ys y r by (simp add: first_def order_by_created_at_desc_def ys_def f_def)
  with i max show ?thesis
    by blast
qed

lemma filter_by_id_absent:
  assumes "interaction_id \<notin> id_col ` set db"
  shows "first (filter_by_id interaction_id db) = None"
proof -
  have "\<not> (case x of (i, r) \<Rightarrow> id_col r = interaction_id)" if "x \<in> set (enumerate 0 db)" for x
  proof -
    obtain i r where x: "x = (i, r)"
      by (cases x)
    with that have "i < length db" "r = db ! i"
      by (simp_all add: in_set_enumerate_eq)
    then have "id_col r \<in> id_col ` set db"
      by simp
    with assms show ?thesis
      by (auto simp: x)
  qed
  then have "filter_by_id interaction_id db = []"
    by (simp add: filter_by_id_def filter_empty_conv)
  then show ?thesis
    by (simp add: first_def)
qed

lemma filter_by_id_present:
  assumes "interaction_id \<in> id_col ` set db"
  shows "\<exists>i. i < length db \<and> id_col (db ! i) = interaction_id
           \<and> first (filter_by_id interaction_id db) = Some (i, db ! i)"
proof -
  from assms obtain j where j: "j < length db" "id_col (db ! j) = interaction_id"
    by (auto simp: in_set_conv_nth)
  then have "(j, db ! j) \<in> set (filter_by_id interaction_id db)"
    by (simp add: filter_by_id_def in_set_enumerate_eq)
  then obtain y ys where ys: "filter_by_id interaction_id db = y # ys"
    by (cases "filter_by_id interaction_id db") auto
  obtain i r where y: "y = (i, r)"
    by (cases y)
  have "(i, r) \<in> set (filter_by_id interaction_id db)"
    by (simp add: ys y)
  then have "i < length db" "r = db ! i" "id_col r = interaction_id"
    by (auto simp: filter_by_id_def in_set_enumerate_eq)
  then show ?thesis
    using ys y by (auto simp: first_def)
qed

section \<open>The deterministic fallback of the Summary Generator\<close>

lemma mock_response_insights:
  assumes "mock_response w d = Inr b"
  shows "len_insights b = Some 3 \<and> \<not> is_real_ai b"
  using assms
  by (auto simp: mock_response_def len_insights_def Let_def split: if_splits pyval.splits)

lemma mock_response_chat:
  assumes "d ''mode'' = Some (PStr ''chat'')"
    and "d ''notes'' = None \<or> (\<exists>s. d ''notes'' = Some (PStr s))"
  shows "\<exists>b. mock_response w d = Inr b"
  using assms
  by (auto simp: mock_response_def dict_get_default_def Let_def)

text \<open>
  Claim C3, as amended. For every payload whose notes, in chat mode, are text or missing,
  the mock response is a bundle with \<open>is_real_ai\<close> false and a fixed list of three
  insights; it is what \<^verbatim>\<open>generate_ai_summary\<close> returns when no external model is
  configured. In chat mode the summary gives the number of words of the notes and the
  confidence score is 0.92; in any other mode the summary names the payload's patient
  identifier, or "Unknown" when the key is missing, and the confidence score is 0.94.
\<close>

theorem mock_response_bundle:
  assumes "d ''mode'' = Some (PStr ''chat'')
             \<longrightarrow> d ''notes'' = None \<or> (\<exists>s. d ''notes'' = Some (PStr s))"
  shows "\<exists>b. mock_response w d = Inr b
           \<and> (\<not> GROQ_AVAILABLE w \<longrightarrow> fst (generate_ai_summary w d r) = Inr b)
           \<and> \<not> is_real_ai b
           \<and> len_insights b = Some 3
           \<and> (d ''mode'' = Some (PStr ''chat'') \<longrightarrow>
                summary b =
                  JStr (''Analyzed ''
                        @ str_nat (length (str_split
                             (case d ''notes'' of Some (PStr s) \<Rightarrow> s | _ \<Rightarrow> '''')))
                        @ '' words of clinical notes. Patient presents with common symptoms requiring follow-up.'')
                \<and> insights b = JArr [JStr ''Suggested follow-up in 1-2 weeks'',
                                      JStr ''Monitor for symptom progression'',
                                      JStr ''Check for medication interactions'']
                \<and> confidence_score b = JFloat 0.92)
           \<and> (d ''mode'' \<noteq> Some (PStr ''chat'') \<longrightarrow>
                summary b =
                  JStr (''Structured consultation for patient ''
                        @ (case d ''patient_id'' of None \<Rightarrow> ''Unknown'' | Some v \<Rightarrow> py_str v)
                        @ '' recorded successfully.'')
                \<and> insights b = JArr [JStr ''Data completeness: 95%'',
                                      JStr ''No immediate red flags detected'',
                                      JStr ''Standard treatment protocol followed'']
                \<and> confidence_score b = JFloat 0.94)"
proof (cases "d ''mode'' = Some (PStr ''chat'')")
  case True
  with assms have "d ''notes'' = None \<or> (\<exists>s. d ''notes'' = Some (PStr s))"
    by simp
  with True show ?thesis
    by (auto simp: mock_response_def generate_ai_summary_def dict_get_default_def
        len_insights_def Let_def)
next
  case False
  then show ?thesis
    by (auto simp: mock_response_def generate_ai_summary_def dict_get_default_def
        len_insights_def Let_def split: option.splits)
qed

theorem mock_response_bundle_witness:
  "chat_with_duration ''mode'' = Some (PStr ''chat'')
   \<and> chat_with_duration ''notes'' = Some (PStr ''a b c'')
   \<and> \<not> GROQ_AVAILABLE mock_world
   \<and> (\<exists>b. mock_response mock_world chat_with_duration = Inr b
          \<and> fst (generate_ai_summary mock_world chat_with_duration Ok) = Inr b
          \<and> \<not> is_real_ai b
          \<and> len_insights b = Some 3
          \<and> summary b = JStr ''Analyzed 3 words of clinical notes. Patient presents with common symptoms requiring follow-up.''
          \<and> confidence_score b = JFloat 0.92)"
proof -
  have h1: "chat_with_duration ''mode'' = Some (PStr ''chat'')"
    and h2: "chat_with_duration ''notes'' = Some (PStr ''a b c'')"
    by (simp_all add: chat_with_duration_def)
  have h3: "\<not> GROQ_AVAILABLE mock_world"
    by (simp add: mock_world_def)
  have h: "chat_with_duration ''mode'' = Some (PStr ''chat'')
             \<longrightarrow> chat_with_duration ''notes'' = None
                 \<or> (\<exists>s. chat_with_duration ''notes'' = Some (PStr s))"
    by (simp add: h2)
  have count: "str_nat (length (str_split ''a b c'')) = ''3''"
    by (simp add: str_split_def isspace_def str_nat.simps)
  from mock_response_bundle [OF h, of mock_world Ok] h1 h2 h3 count show ?thesis
    by auto
qed

text \<open>
  Claim C3 as stated fails: in chat mode with the notes bound to \<^verbatim>\<open>None\<close>,
  \<^verbatim>\<open>notes.split()\<close> raises and no bundle is returned.
\<close>

theorem mock_response_null_notes:
  "mock_response mock_world chat_null_notes = Inl (no_attribute ''NoneType'' ''split'')
   \<and> \<not> GROQ_AVAILABLE mock_world
   \<and> fst (generate_ai_summary mock_world chat_null_notes Ok)
       = Inl (no_attribute ''NoneType'' ''split'')"
  by (simp add: mock_response_def generate_ai_summary_def chat_null_notes_def mock_world_def
      dict_get_default_def)

section \<open>The tools\<close>

text \<open>
  Claim C2. For every chat-mode payload whose commit succeeds, \<^verbatim>\<open>log_interaction_tool\<close>
  appends one row whose interaction type is "consultation" and whose duration is 30
  minutes, whatever the payload binds \<^verbatim>\<open>duration\<close> to.
\<close>

theorem chat_mode_record:
  assumes "d ''mode'' = Some (PStr ''chat'')" and "commit_error w = None"
  shows "\<exists>r. fst (log_interaction_tool w db d) = Log_ok (id_col r) r
           \<and> fst (snd (log_interaction_tool w db d)) = db @ [r]
           \<and> interaction_type r = ''consultation''
           \<and> duration_minutes r = PInt 30
           \<and> fst (snd (log_interaction_tool w db (d(''duration'' := x)))) = db @ [r]"
  using assms by (simp add: log_interaction_tool_def dict_get_default_def Let_def)

theorem chat_mode_record_witness:
  "chat_with_duration ''mode'' = Some (PStr ''chat'') \<and> commit_error mock_world = None
   \<and> (\<exists>r. fst (log_interaction_tool mock_world seeded chat_with_duration) = Log_ok (id_col r) r
          \<and> fst (snd (log_interaction_tool mock_world seeded chat_with_duration)) = seeded @ [r]
          \<and> interaction_type r = ''consultation''
          \<and> duration_minutes r = PInt 30
          \<and> fst (snd (log_interaction_tool mock_world seeded
                        (chat_with_duration(''duration'' := None)))) = seeded @ [r])"
  using chat_mode_record [of chat_with_duration mock_world seeded None]
  by (simp add: chat_with_duration_def mock_world_def)

text \<open>
  Claim C7. For every payload whose mode is not "chat" and whose commit succeeds,
  \<^verbatim>\<open>log_interaction_tool\<close> appends exactly one row, which copies patient id, symptoms,
  diagnosis and prescription from the payload, and whose duration is 20 when the payload
  has no \<^verbatim>\<open>duration\<close> key.
\<close>

theorem form_mode_record:
  assumes "d ''mode'' \<noteq> Some (PStr ''chat'')" and "commit_error w = None"
  shows "\<exists>r. fst (log_interaction_tool w db d) = Log_ok (id_col r) r
           \<and> fst (snd (log_interaction_tool w db d)) = db @ [r]
           \<and> patient_id r = dict_get d ''patient_id''
           \<and> symptoms r = dict_get d ''symptoms''
           \<and> diagnosis r = dict_get d ''diagnosis''
           \<and> prescription r = dict_get d ''prescription''
           \<and> (d ''duration'' = None \<longrightarrow> duration_minutes r = PInt 20)"
  using assms
  by (auto simp: log_interaction_tool_def dict_get_default_def Let_def split: option.splits)

theorem form_mode_record_witness:
  "form_pat123 ''mode'' \<noteq> Some (PStr ''chat'') \<and> commit_error mock_world = None
   \<and> form_pat123 ''duration'' = None
   \<and> (\<exists>r. fst (log_interaction_tool mock_world seeded form_pat123) = Log_ok (id_col r) r
          \<and> fst (snd (log_interaction_tool mock_world seeded form_pat123)) = seeded @ [r]
          \<and> patient_id r = PStr ''PAT123''
          \<and> symptoms r = PStr ''Fever''
          \<and> diagnosis r = PStr ''Flu''
          \<and> prescription r = PStr ''Rest''
          \<and> duration_minutes r = PInt 20)"
  using form_mode_record [of form_pat123 mock_world seeded]
  by (simp add: form_pat123_def mock_world_def dict_get_def)

text \<open>
  Claim C9. For every payload whose mode is not "chat" and which binds \<^verbatim>\<open>duration\<close> to
  \<^verbatim>\<open>None\<close>, the row stored has a null duration, not 20. This is the payload the
  request model yields for a form submission that leaves the duration out, so the
  handler of \<^verbatim>\<open>POST /log-interaction\<close> stores a null duration for it.
\<close>

theorem null_duration_stored:
  assumes "d ''mode'' \<noteq> Some (PStr ''chat'')" and "d ''duration'' = Some PNone"
    and "commit_error w = None"
  shows "(\<exists>r. fst (snd (log_interaction_tool w db d)) = db @ [r] \<and> duration_minutes r = PNone)
         \<and> (mode_req q \<noteq> ''chat'' \<and> duration_req q = None \<longrightarrow>
              request_dict q ''duration'' = Some PNone
              \<and> (\<exists>r. fst (snd (log_interaction w db q)) = db @ [r]
                     \<and> duration_minutes r = PNone))"
proof -
  have tool: "\<exists>r. log_interaction_tool w db p = (Log_ok (id_col r) r, db @ [r],
                     [''LOG INTERACTION TOOL'', ''Interaction Saved: '' @ id_col r])
                 \<and> duration_minutes r = PNone"
    if "p ''mode'' \<noteq> Some (PStr ''chat'')" and "p ''duration'' = Some PNone" for p
    using that assms(3)
    by (auto simp: log_interaction_tool_def dict_get_default_def Let_def split: option.splits)
  have first_part: "\<exists>r. fst (snd (log_interaction_tool w db d)) = db @ [r] \<and> duration_minutes r = PNone"
    using tool [OF assms(1) assms(2)] by auto
  have second_part: "request_dict q ''duration'' = Some PNone
      \<and> (\<exists>r. fst (snd (log_interaction w db q)) = db @ [r] \<and> duration_minutes r = PNone)"
    if q: "mode_req q \<noteq> ''chat''" "duration_req q = None"
  proof -
    have mode: "request_dict q ''mode'' \<noteq> Some (PStr ''chat'')"
      using q by (simp add: request_dict_def)
    have dur: "request_dict q ''duration'' = Some PNone"
      using q by (simp add: request_dict_def)
    from tool [OF mode dur] obtain r where
      r: "log_interaction_tool w db (request_dict q) = (Log_ok (id_col r) r, db @ [r],
            [''LOG INTERACTION TOOL'', ''Interaction Saved: '' @ id_col r])"
         "duration_minutes r = PNone"
      by blast
    have "fst (snd (process_interaction w db (request_dict q))) = db @ [r]"
      by (simp add: process_interaction_def r Let_def split: prod.splits sum.splits)
    then have "fst (snd (log_interaction w db q)) = db @ [r]"
      using q by (auto simp: log_interaction_def Let_def split: prod.splits)
    with dur r show ?thesis
      by blast
  qed
  from first_part second_part show ?thesis
    by blast
qed

theorem null_duration_stored_witness:
  "request_dict form_request ''mode'' \<noteq> Some (PStr ''chat'')
   \<and> request_dict form_request ''duration'' = Some PNone
   \<and> commit_error mock_world = None
   \<and> mode_req form_request \<noteq> ''chat'' \<and> duration_req form_request = None
   \<and> (\<exists>r. fst (snd (log_interaction_tool mock_world seeded (request_dict form_request)))
            = seeded @ [r] \<and> duration_minutes r = PNone)
   \<and> (\<exists>r. fst (snd (log_interaction mock_world seeded form_request)) = seeded @ [r]
          \<and> duration_minutes r = PNone)"
proof -
  have h1: "request_dict form_request ''mode'' \<noteq> Some (PStr ''chat'')"
    by (simp add: request_dict_def form_request_def)
  have h2: "request_dict form_request ''duration'' = Some PNone"
    by (simp add: request_dict_def form_request_def)
  have h3: "commit_error mock_world = None"
    by (simp add: mock_world_def)
  have h4: "mode_req form_request \<noteq> ''chat''" "duration_req form_request = None"
    by (simp_all add: form_request_def)
  from null_duration_stored [OF h1 h2 h3, of seeded form_request] h1 h2 h3 h4
  show ?thesis
    by blast
qed

text \<open>
  For an identifier that no row has, \<^verbatim>\<open>compliance_tool\<close> leaves the table as it is and
  answers with the text of the AttributeError, where \<^verbatim>\<open>followup_tool\<close> answers "Not
  found".
\<close>

lemma compliance_tool_absent_id:
  assumes "interaction_id \<notin> id_col ` set db"
  shows "compliance_tool w db interaction_id flag
           = (Fail_error (no_attribute ''NoneType'' ''is_compliant''), db, [''COMPLIANCE TOOL''])"
  using filter_by_id_absent [OF assms] by (simp add: compliance_tool_def)

lemma followup_tool_absent_id:
  assumes "interaction_id \<notin> id_col ` set db"
  shows "followup_tool w db interaction_id followup_date
           = (Fail_message ''Not found'', db, [''FOLLOWUP TOOL''])"
  using filter_by_id_absent [OF assms] by (simp add: followup_tool_def)

text \<open>
  Claim C4, at the identifier "id-9" on the seeded table: the table is unchanged and the
  result is a failure, but it carries the AttributeError's text under \<^verbatim>\<open>error\<close> and no
  \<^verbatim>\<open>message\<close>, unlike the "Not found" of \<^verbatim>\<open>followup_tool\<close> on the same input.
\<close>

theorem compliance_tool_unknown_id:
  "compliance_tool mock_world seeded ''id-9'' True
     = (Fail_error (no_attribute ''NoneType'' ''is_compliant''), seeded, [''COMPLIANCE TOOL''])
   \<and> get_message (fst (compliance_tool mock_world seeded ''id-9'' True)) = None
   \<and> followup_tool mock_world seeded ''id-9'' ''2024-01-27''
     = (Fail_message ''Not found'', seeded, [''FOLLOWUP TOOL''])"
  by (simp add: compliance_tool_def followup_tool_def filter_by_id_def first_def seeded_def)

text \<open>
  Claim C5. For every identifier some row has and every date string that
  \<^verbatim>\<open>datetime.fromisoformat\<close> rejects, \<^verbatim>\<open>followup_tool\<close> fails with the parser's error
  and leaves the table, hence the row's follow-up date and every other column, unchanged.
\<close>

theorem followup_unparseable_date:
  assumes "interaction_id \<in> id_col ` set db" and "fromisoformat w followup_date = Inl e"
  shows "followup_tool w db interaction_id followup_date
           = (Fail_error e, db, [''FOLLOWUP TOOL''])"
proof -
  from filter_by_id_present [OF assms(1)] obtain i where
    "first (filter_by_id interaction_id db) = Some (i, db ! i)"
    by blast
  with assms(2) show ?thesis
    by (simp add: followup_tool_def)
qed

theorem followup_unparseable_date_witness:
  "''id-1'' \<in> id_col ` set seeded
   \<and> fromisoformat mock_world ''next week'' = Inl (''Invalid isoformat string: '' @ quoted ''next week'')
   \<and> followup_tool mock_world seeded ''id-1'' ''next week''
       = (Fail_error (''Invalid isoformat string: '' @ quoted ''next week''), seeded,
          [''FOLLOWUP TOOL''])"
proof -
  have h1: "''id-1'' \<in> id_col ` set seeded"
    by (simp add: seeded_def)
  have h2: "fromisoformat mock_world ''next week''
              = Inl (''Invalid isoformat string: '' @ quoted ''next week'')"
    by (simp add: mock_world_def)
  from followup_unparseable_date [OF h1 h2] h1 h2 show ?thesis
    by blast
qed

text \<open>
  Claim C6. For every table with at least one row and a commit that succeeds,
  \<^verbatim>\<open>edit_interaction_tool\<close> on \<^verbatim>\<open>{"diagnosis": x}\<close> picks a row created latest and
  replaces it by the same row with the diagnosis \<open>x\<close> and the updated timestamp set to
  the clock's reading; the prescription, every other column and every other row stay as
  they were, and the timestamp moves forward whenever the clock reads later than it.
\<close>

theorem edit_diagnosis_only:
  assumes "db \<noteq> []" and "commit_error w = None"
  shows "\<exists>i r'. i < length db
           \<and> (\<forall>r \<in> set db. created_at r \<le> created_at (db ! i))
           \<and> r' = (db ! i)\<lparr>diagnosis := x, updated_at := utcnow w\<rparr>
           \<and> edit_interaction_tool w db [''diagnosis'' \<mapsto> x]
               = (Edit_ok r', db[i := r'], [''EDIT INTERACTION TOOL''])
           \<and> prescription r' = prescription (db ! i)
           \<and> updated_at r' = utcnow w
           \<and> (updated_at (db ! i) < utcnow w \<longrightarrow> updated_at (db ! i) < updated_at r')"
proof -
  from first_order_by_created_at_desc [OF assms(1)] obtain i where i:
    "i < length db" "first (order_by_created_at_desc db) = Some (i, db ! i)"
    "\<forall>r \<in> set db. created_at r \<le> created_at (db ! i)"
    by blast
  have "edit_interaction_tool w db [''diagnosis'' \<mapsto> x]
          = (Edit_ok ((db ! i)\<lparr>diagnosis := x, updated_at := utcnow w\<rparr>),
             db[i := (db ! i)\<lparr>diagnosis := x, updated_at := utcnow w\<rparr>],
             [''EDIT INTERACTION TOOL''])"
    using i(2) assms(2) by (simp add: edit_interaction_tool_def Let_def)
  with i(1) i(3) show ?thesis
    by (intro exI [of _ i] exI [of _ "(db ! i)\<lparr>diagnosis := x, updated_at := utcnow w\<rparr>"]) simp
qed

theorem edit_diagnosis_only_witness:
  "seeded \<noteq> [] \<and> commit_error mock_world = None
   \<and> (\<exists>i r'. i < length seeded
          \<and> (\<forall>r \<in> set seeded. created_at r \<le> created_at (seeded ! i))
          \<and> r' = (seeded ! i)\<lparr>diagnosis := PStr ''X'', updated_at := utcnow mock_world\<rparr>
          \<and> edit_interaction_tool mock_world seeded [''diagnosis'' \<mapsto> PStr ''X'']
               = (Edit_ok r', seeded[i := r'], [''EDIT INTERACTION TOOL''])
          \<and> prescription r' = prescription (seeded ! i)
          \<and> updated_at r' = utcnow mock_world
          \<and> (updated_at (seeded ! i) < utcnow mock_world
               \<longrightarrow> updated_at (seeded ! i) < updated_at r'))
   \<and> edit_interaction_tool mock_world seeded [''diagnosis'' \<mapsto> PStr ''X'']
       = (Edit_ok ((seeded ! 1)\<lparr>diagnosis := PStr ''X'', updated_at := 1000\<rparr>),
          seeded[1 := (seeded ! 1)\<lparr>diagnosis := PStr ''X'', updated_at := 1000\<rparr>],
          [''EDIT INTERACTION TOOL''])
   \<and> updated_at (seeded ! 1) < utcnow mock_world"
proof -
  have h1: "seeded \<noteq> []"
    by (simp add: seeded_def)
  have h2: "commit_error mock_world = None"
    by (simp add: mock_world_def)
  have run: "edit_interaction_tool mock_world seeded [''diagnosis'' \<mapsto> PStr ''X'']
       = (Edit_ok ((seeded ! 1)\<lparr>diagnosis := PStr ''X'', updated_at := 1000\<rparr>),
          seeded[1 := (seeded ! 1)\<lparr>diagnosis := PStr ''X'', updated_at := 1000\<rparr>],
          [''EDIT INTERACTION TOOL''])"
    by (simp add: edit_interaction_tool_def order_by_created_at_desc_def first_def
        seeded_def mock_world_def Let_def)
  have older: "updated_at (seeded ! 1) < utcnow mock_world"
    by (simp add: seeded_def mock_world_def)
  from edit_diagnosis_only [OF h1 h2, of "PStr ''X''"] h1 h2 run older show ?thesis
    by blast
qed

text \<open>
  Claim C10. For every table with at least one row and a commit that succeeds,
  \<^verbatim>\<open>edit_interaction_tool\<close> on updates with neither a \<^verbatim>\<open>diagnosis\<close> nor a
  \<^verbatim>\<open>prescription\<close> key still succeeds: the row created latest keeps every column but the
  updated timestamp, which is set to the clock's reading.
\<close>

theorem edit_nothing_touches_timestamp:
  assumes "db \<noteq> []" and "commit_error w = None"
    and "updates ''diagnosis'' = None" and "updates ''prescription'' = None"
  shows "\<exists>i r'. i < length db
           \<and> (\<forall>r \<in> set db. created_at r \<le> created_at (db ! i))
           \<and> r' = (db ! i)\<lparr>updated_at := utcnow w\<rparr>
           \<and> edit_interaction_tool w db updates
               = (Edit_ok r', db[i := r'], [''EDIT INTERACTION TOOL''])
           \<and> success (fst (edit_interaction_tool w db updates))
           \<and> updated_at r' = utcnow w
           \<and> (updated_at (db ! i) < utcnow w \<longrightarrow> updated_at (db ! i) < updated_at r')"
proof -
  from first_order_by_created_at_desc [OF assms(1)] obtain i where i:
    "i < length db" "first (order_by_created_at_desc db) = Some (i, db ! i)"
    "\<forall>r \<in> set db. created_at r \<le> created_at (db ! i)"
    by blast
  have "edit_interaction_tool w db updates
          = (Edit_ok ((db ! i)\<lparr>updated_at := utcnow w\<rparr>),
             db[i := (db ! i)\<lparr>updated_at := utcnow w\<rparr>],
             [''EDIT INTERACTION TOOL''])"
    using i(2) assms(2,3,4) by (simp add: edit_interaction_tool_def Let_def)
  with i(1) i(3) show ?thesis
    by (intro exI [of _ i] exI [of _ "(db ! i)\<lparr>updated_at := utcnow w\<rparr>"]) simp
qed

theorem edit_nothing_touches_timestamp_witness:
  "seeded \<noteq> [] \<and> commit_error mock_world = None
   \<and> [''notes'' \<mapsto> PStr ''n''] ''diagnosis'' = None
   \<and> [''notes'' \<mapsto> PStr ''n''] ''prescription'' = None
   \<and> (\<exists>i r'. i < length seeded
          \<and> (\<forall>r \<in> set seeded. created_at r \<le> created_at (seeded ! i))
          \<and> r' = (seeded ! i)\<lparr>updated_at := utcnow mock_world\<rparr>
          \<and> edit_interaction_tool mock_world seeded [''notes'' \<mapsto> PStr ''n'']
               = (Edit_ok r', seeded[i := r'], [''EDIT INTERACTION TOOL''])
          \<and> success (fst (edit_interaction_tool mock_world seeded [''notes'' \<mapsto> PStr ''n'']))
          \<and> updated_at r' = utcnow mock_world
          \<and> (updated_at (seeded ! i) < utcnow mock_world
               \<longrightarrow> updated_at (seeded ! i) < updated_at r'))
   \<and> edit_interaction_tool mock_world seeded Map.empty
       = (Edit_ok ((seeded ! 1)\<lparr>updated_at := 1000\<rparr>),
          seeded[1 := (seeded ! 1)\<lparr>updated_at := 1000\<rparr>], [''EDIT INTERACTION TOOL''])"
proof -
  have h1: "seeded \<noteq> []"
    by (simp add: seeded_def)
  have h2: "commit_error mock_world = None"
    by (simp add: mock_world_def)
  have h3: "[''notes'' \<mapsto> PStr ''n''] ''diagnosis'' = None"
    "[''notes'' \<mapsto> PStr ''n''] ''prescription'' = None"
    by simp_all
  have run: "edit_interaction_tool mock_world seeded Map.empty
       = (Edit_ok ((seeded ! 1)\<lparr>updated_at := 1000\<rparr>),
          seeded[1 := (seeded ! 1)\<lparr>updated_at := 1000\<rparr>], [''EDIT INTERACTION TOOL''])"
    by (simp add: edit_interaction_tool_def order_by_created_at_desc_def first_def
        seeded_def mock_world_def Let_def)
  from edit_nothing_touches_timestamp [OF h1 h2 h3] h1 h2 h3 run show ?thesis
    by blast
qed

section \<open>The Interaction Processor\<close>

text \<open>
  In chat mode with textual or missing notes, \<^verbatim>\<open>generate_ai_summary\<close> returns the
  bundle built from the model's JSON object when the model is configured, its call
  returns and the answer parses to an object; the raw bundle when the answer is not JSON;
  and the mock response in every other case.
\<close>

lemma generate_ai_summary_chat:
  assumes "d ''mode'' = Some (PStr ''chat'')"
    and "dict_get_default d ''notes'' (PStr '''') = PStr notes"
  shows "fst (generate_ai_summary w d r) =
           (if GROQ_AVAILABLE w then
              (case llm_invoke w (prompt notes) of
                 Inl e \<Rightarrow> mock_response w d
               | Inr content \<Rightarrow>
                   (case json_loads w content of
                      None \<Rightarrow> Inr (raw_bundle w content)
                    | Some (JObj m) \<Rightarrow> Inr (json_bundle w m)
                    | Some j \<Rightarrow> mock_response w d))
            else mock_response w d)"
  using assms
  by (simp add: generate_ai_summary_def groq_response_def dict_get_def Let_def
      split: sum.splits option.splits jval.splits)

lemma raw_bundle_insights: "len_insights (raw_bundle w content) = Some 3"
  by (simp add: raw_bundle_def len_insights_def)

text \<open>
  Claim C1, as amended. For every chat-mode payload whose notes are text or missing,
  processed while \<^verbatim>\<open>log_interaction_tool\<close> succeeds, \<^verbatim>\<open>process_interaction\<close> returns the
  envelope with success true, the tool name "log_interaction", the tool's result, an
  insight bundle and the processing time. When the external model is configured, its
  call on the prompt for the notes returns and the answer parses to a JSON object, the
  bundle is the one built from that object. The bundle's insights are a list of length
  3 whenever no external model is configured, its call raises, or its answer does not
  parse to a JSON object.
\<close>

theorem process_chat_interaction:
  assumes "d ''mode'' = Some (PStr ''chat'')"
    and "dict_get_default d ''notes'' (PStr '''') = PStr notes"
    and "success (fst (log_interaction_tool w db d))"
  shows "\<exists>b. fst (process_interaction w db d)
               = Response ''log_interaction'' (fst (log_interaction_tool w db d)) b (utcnow w)
           \<and> envelope_success (fst (process_interaction w db d))
           \<and> (\<forall>content m.
                 GROQ_AVAILABLE w \<and> llm_invoke w (prompt notes) = Inr content
                 \<and> json_loads w content = Some (JObj m)
                 \<longrightarrow> b = json_bundle w m)
           \<and> (\<not> GROQ_AVAILABLE w
               \<or> (\<exists>e. llm_invoke w (prompt notes) = Inl e)
               \<or> (\<exists>content. llm_invoke w (prompt notes) = Inr content
                     \<and> (\<forall>m. json_loads w content \<noteq> Some (JObj m)))
               \<longrightarrow> len_insights b = Some 3)"
proof -
  have notes_ok: "d ''notes'' = None \<or> (\<exists>s. d ''notes'' = Some (PStr s))"
    using assms(2) by (auto simp: dict_get_default_def split: option.splits)
  from mock_response_chat [OF assms(1) notes_ok] obtain mb where mb: "mock_response w d = Inr mb"
    by blast
  note mb3 = mock_response_insights [OF mb]
  let ?tr = "fst (log_interaction_tool w db d)"
  let ?gen = "fst (generate_ai_summary w d ?tr)"
  have gen_eq: "?gen =
           (if GROQ_AVAILABLE w then
              (case llm_invoke w (prompt notes) of
                 Inl e \<Rightarrow> Inr mb
               | Inr content \<Rightarrow>
                   (case json_loads w content of
                      None \<Rightarrow> Inr (raw_bundle w content)
                    | Some (JObj m) \<Rightarrow> Inr (json_bundle w m)
                    | Some j \<Rightarrow> Inr mb))
            else Inr mb)"
    using generate_ai_summary_chat [OF assms(1,2), of w ?tr] unfolding mb .
  have "\<exists>b. ?gen = Inr b
          \<and> (\<forall>content m.
                 GROQ_AVAILABLE w \<and> llm_invoke w (prompt notes) = Inr content
                 \<and> json_loads w content = Some (JObj m)
                 \<longrightarrow> b = json_bundle w m)
          \<and> (\<not> GROQ_AVAILABLE w
               \<or> (\<exists>e. llm_invoke w (prompt notes) = Inl e)
               \<or> (\<exists>content. llm_invoke w (prompt notes) = Inr content
                     \<and> (\<forall>m. json_loads w content \<noteq> Some (JObj m)))
               \<longrightarrow> len_insights b = Some 3)"
  proof (cases "GROQ_AVAILABLE w")
    case False
    with gen_eq mb3 show ?thesis
      by simp
  next
    case True
    show ?thesis
    proof (cases "llm_invoke w (prompt notes)")
      case (Inl e)
      with True gen_eq mb3 show ?thesis
        by simp
    next
      case (Inr content)
      show ?thesis
      proof (cases "json_loads w content")
        case None
        with True Inr gen_eq show ?thesis
          by (simp add: raw_bundle_insights)
      next
        case (Some j)
        show ?thesis
        proof (cases "\<exists>m. j = JObj m")
          case True
          then obtain m where "j = JObj m"
            by blast
          with \<open>GROQ_AVAILABLE w\<close> Inr Some gen_eq show ?thesis
            by simp
        next
          case False
          with \<open>GROQ_AVAILABLE w\<close> Inr Some gen_eq have "?gen = Inr mb"
            by (cases j) simp_all
          with \<open>GROQ_AVAILABLE w\<close> Inr Some False mb3 show ?thesis
            by simp
        qed
      qed
    qed
  qed
  then obtain b where b: "?gen = Inr b"
    and json: "\<forall>content m.
                 GROQ_AVAILABLE w \<and> llm_invoke w (prompt notes) = Inr content
                 \<and> json_loads w content = Some (JObj m)
                 \<longrightarrow> b = json_bundle w m"
    and three: "\<not> GROQ_AVAILABLE w
               \<or> (\<exists>e. llm_invoke w (prompt notes) = Inl e)
               \<or> (\<exists>content. llm_invoke w (prompt notes) = Inr content
                     \<and> (\<forall>m. json_loads w content \<noteq> Some (JObj m)))
               \<longrightarrow> len_insights b = Some 3"
    by blast
  have "fst (process_interaction w db d)
          = Response ''log_interaction'' ?tr b (utcnow w)"
  proof -
    obtain tr db' printed where tool: "log_interaction_tool w db d = (tr, db', printed)"
      by (cases "log_interaction_tool w db d")
    obtain res said where gen: "generate_ai_summary w d tr = (res, said)"
      by (cases "generate_ai_summary w d tr")
    with b tool have "res = Inr b"
      by simp
    with assms(3) tool gen show ?thesis
      by (simp add: process_interaction_def Let_def)
  qed
  with json three show ?thesis
    by simp
qed

theorem process_chat_interaction_witness:
  "chat_fever ''mode'' = Some (PStr ''chat'')
   \<and> dict_get_default chat_fever ''notes'' (PStr '''') = PStr ''fever''
   \<and> success (fst (log_interaction_tool mock_world seeded chat_fever))
   \<and> \<not> GROQ_AVAILABLE mock_world
   \<and> (\<exists>b. fst (process_interaction mock_world seeded chat_fever)
             = Response ''log_interaction''
                 (fst (log_interaction_tool mock_world seeded chat_fever)) b 1000
          \<and> envelope_success (fst (process_interaction mock_world seeded chat_fever))
          \<and> len_insights b = Some 3)
   \<and> success (fst (log_interaction_tool groq_down_world seeded chat_fever))
   \<and> GROQ_AVAILABLE groq_down_world
   \<and> llm_invoke groq_down_world (prompt ''fever'') = Inl ''Connection error.''
   \<and> (\<exists>b. fst (process_interaction groq_down_world seeded chat_fever)
             = Response ''log_interaction''
                 (fst (log_interaction_tool groq_down_world seeded chat_fever)) b 1000
          \<and> len_insights b = Some 3)
   \<and> success (fst (log_interaction_tool groq_text_world seeded chat_fever))
   \<and> GROQ_AVAILABLE groq_text_world
   \<and> llm_invoke groq_text_world (prompt ''fever'') = Inr ''Likely a viral fever.''
   \<and> json_loads groq_text_world ''Likely a viral fever.'' = None
   \<and> (\<exists>b. fst (process_interaction groq_text_world seeded chat_fever)
             = Response ''log_interaction''
                 (fst (log_interaction_tool groq_text_world seeded chat_fever)) b 1000
          \<and> len_insights b = Some 3)
   \<and> success (fst (log_interaction_tool groq_world seeded chat_fever))
   \<and> GROQ_AVAILABLE groq_world
   \<and> llm_invoke groq_world (prompt ''fever'') = Inr ''{}''
   \<and> json_loads groq_world ''{}'' = Some (JObj [])
   \<and> fst (process_interaction groq_world seeded chat_fever)
       = Response ''log_interaction''
           (fst (log_interaction_tool groq_world seeded chat_fever))
           (json_bundle groq_world []) 1000"
proof -
  have h1: "chat_fever ''mode'' = Some (PStr ''chat'')"
    by (simp add: chat_fever_def)
  have h2: "dict_get_default chat_fever ''notes'' (PStr '''') = PStr ''fever''"
    by (simp add: chat_fever_def dict_get_default_def)
  have s1: "success (fst (log_interaction_tool mock_world seeded chat_fever))"
    and s2: "success (fst (log_interaction_tool groq_down_world seeded chat_fever))"
    and s3: "success (fst (log_interaction_tool groq_text_world seeded chat_fever))"
    and s4: "success (fst (log_interaction_tool groq_world seeded chat_fever))"
    by (simp_all add: log_interaction_tool_def mock_world_def groq_down_world_def
        groq_text_world_def groq_world_def Let_def)
  have w1: "\<not> GROQ_AVAILABLE mock_world" "utcnow mock_world = 1000"
    by (simp_all add: mock_world_def)
  have w2: "GROQ_AVAILABLE groq_down_world" "utcnow groq_down_world = 1000"
    "llm_invoke groq_down_world (prompt ''fever'') = Inl ''Connection error.''"
    by (simp_all add: groq_down_world_def mock_world_def)
  have w3: "GROQ_AVAILABLE groq_text_world" "utcnow groq_text_world = 1000"
    "llm_invoke groq_text_world (prompt ''fever'') = Inr ''Likely a viral fever.''"
    "json_loads groq_text_world ''Likely a viral fever.'' = None"
    by (simp_all add: groq_text_world_def mock_world_def)
  have w4: "GROQ_AVAILABLE groq_world" "utcnow groq_world = 1000"
    "llm_invoke groq_world (prompt ''fever'') = Inr ''{}''"
    "json_loads groq_world ''{}'' = Some (JObj [])"
    by (simp_all add: groq_world_def mock_world_def)
  have a1: "\<exists>b. fst (process_interaction mock_world seeded chat_fever)
             = Response ''log_interaction''
                 (fst (log_interaction_tool mock_world seeded chat_fever)) b 1000
          \<and> envelope_success (fst (process_interaction mock_world seeded chat_fever))
          \<and> len_insights b = Some 3"
    using process_chat_interaction [OF h1 h2 s1] w1 by auto
  have a2: "\<exists>b. fst (process_interaction groq_down_world seeded chat_fever)
             = Response ''log_interaction''
                 (fst (log_interaction_tool groq_down_world seeded chat_fever)) b 1000
          \<and> len_insights b = Some 3"
    using process_chat_interaction [OF h1 h2 s2] w2 by auto
  have a3: "\<exists>b. fst (process_interaction groq_text_world seeded chat_fever)
             = Response ''log_interaction''
                 (fst (log_interaction_tool groq_text_world seeded chat_fever)) b 1000
          \<and> len_insights b = Some 3"
    using process_chat_interaction [OF h1 h2 s3] w3 by auto
  have a4: "fst (process_interaction groq_world seeded chat_fever)
       = Response ''log_interaction''
           (fst (log_interaction_tool groq_world seeded chat_fever))
           (json_bundle groq_world []) 1000"
    using process_chat_interaction [OF h1 h2 s4] w4 by auto
  from h1 h2 s1 s2 s3 s4 w1 w2 w3 w4 a1 a2 a3 a4 show ?thesis
    by simp
qed

text \<open>
  Claim C1 as stated fails twice. With the external model configured and answering the
  empty JSON object, the tool succeeds and the insights are the one-item default. With
  the notes bound to \<^verbatim>\<open>None\<close>, the tool succeeds and the envelope is the internal
  error.
\<close>

theorem process_chat_interaction_fails:
  "success (fst (log_interaction_tool groq_world seeded chat_fever))
   \<and> Option.bind (ai_insights_of (fst (process_interaction groq_world seeded chat_fever)))
       len_insights = Some 1
   \<and> success (fst (log_interaction_tool mock_world seeded chat_null_notes))
   \<and> fst (process_interaction mock_world seeded chat_null_notes)
       = Agent_error (no_attribute ''NoneType'' ''split'')"
  by (simp add: process_interaction_def log_interaction_tool_def generate_ai_summary_def
      groq_response_def mock_response_def json_bundle_def len_insights_def
      dict_get_def dict_get_default_def groq_world_def mock_world_def
      chat_fever_def chat_null_notes_def Let_def)

text \<open>
  Claim C8. For every payload on which \<^verbatim>\<open>log_interaction_tool\<close> returns a failure,
  \<^verbatim>\<open>process_interaction\<close> returns the failure envelope, whose message is the tool's error
  and which has no insights; the line \<^verbatim>\<open>generate_ai_summary\<close> prints first is not in the
  output, so the Summary Generator was not called.
\<close>

theorem tool_failure_envelope:
  assumes "\<not> success (fst (log_interaction_tool w db d))"
  shows "\<exists>e. fst (log_interaction_tool w db d) = Fail_error e
           \<and> fst (process_interaction w db d) = Tool_failed e (Fail_error e)
           \<and> \<not> envelope_success (fst (process_interaction w db d))
           \<and> ai_insights_of (fst (process_interaction w db d)) = None
           \<and> ''Generating AI insights...'' \<notin> set (snd (snd (process_interaction w db d)))"
proof (cases "commit_error w")
  case None
  with assms show ?thesis
    by (simp add: log_interaction_tool_def Let_def)
next
  case (Some e)
  then have tool: "log_interaction_tool w db d
                     = (Fail_error e, db, [''LOG INTERACTION TOOL'', ''DB Error: '' @ e])"
    by (simp add: log_interaction_tool_def Let_def)
  then have "process_interaction w db d
               = (Tool_failed e (Fail_error e), db,
                  [''Processing interaction: ''
                     @ py_str (dict_get_default d ''mode'' (PStr ''form'')) @ '' mode'',
                   ''LOG INTERACTION TOOL'', ''DB Error: '' @ e])"
    by (simp add: process_interaction_def Let_def)
  with tool show ?thesis
    by simp
qed

theorem tool_failure_envelope_witness:
  "\<not> success (fst (log_interaction_tool locked_world seeded chat_fever))
   \<and> (\<exists>e. fst (log_interaction_tool locked_world seeded chat_fever) = Fail_error e
          \<and> fst (process_interaction locked_world seeded chat_fever)
              = Tool_failed e (Fail_error e)
          \<and> \<not> envelope_success (fst (process_interaction locked_world seeded chat_fever))
          \<and> ai_insights_of (fst (process_interaction locked_world seeded chat_fever)) = None
          \<and> ''Generating AI insights...''
              \<notin> set (snd (snd (process_interaction locked_world seeded chat_fever))))
   \<and> fst (process_interaction locked_world seeded chat_fever)
       = Tool_failed ''database is locked'' (Fail_error ''database is locked'')"
proof -
  have h: "\<not> success (fst (log_interaction_tool locked_world seeded chat_fever))"
    by (simp add: log_interaction_tool_def locked_world_def mock_world_def Let_def)
  have run: "fst (process_interaction locked_world seeded chat_fever)
       = Tool_failed ''database is locked'' (Fail_error ''database is locked'')"
    by (simp add: process_interaction_def log_interaction_tool_def locked_world_def
        mock_world_def Let_def)
  from tool_failure_envelope [OF h] h run show ?thesis
    by blast
qed

end
